theory Spec2Isabelle
  imports Main "HOL-Library.Char_ord" "HOL-Library.List_Lexorder" "HOL-Library.Sublist"
begin

section \<open>Values shared by the modules\<close>

text \<open>
  Paths and file contents are Python strings. Exceptions are values: a function of the
  source that can raise returns \<open>error + 'a\<close>, with \<open>Inl\<close> for the exception.
\<close>

datatype error = ValueError | KeyError | TypeError | FileNotFoundError

text \<open>The dictionaries \<^verbatim>\<open>{"path": rel_path, "content": content}\<close> of \<^verbatim>\<open>ContextCollector.files\<close>.\<close>

record file_entry =
  path :: string
  content :: string

text \<open>\<^verbatim>\<open>Source(rel, content)\<close> of \<^verbatim>\<open>llm_context.highlighter.parser\<close>: one in-memory source unit.\<close>

datatype Source = Source (source_path: string) (source_content: string)

text \<open>One outline record (path and outline text) as \<^verbatim>\<open>generate_outlines\<close> returns it.\<close>

datatype OutlineRecord = OutlineRecord (record_path: string) (record_text: string)

section \<open>The outline engine\<close>

text \<open>
  \<^verbatim>\<open>llm_context.highlighter\<close> (\<^verbatim>\<open>to_language\<close>, \<^verbatim>\<open>generate_outlines\<close>, the parsers) is
  imported by \<^verbatim>\<open>context_generator.py\<close> and is not among the source files. The resolver
  \<^verbatim>\<open>to_language\<close> is a parameter of everything below; the engine behind
  \<^verbatim>\<open>generate_outlines\<close> follows the specification's sections 3, 4.2 and 4.4.
\<close>

text \<open>
  Modelled from the spec: the Declaration of section 3, one entry of an outline. The
  parsers that build it are not among the source files.
\<close>

datatype kind = Module | Class | Function | Method | Field | Constant

record Declaration =
  decl_kind :: kind
  name :: string
  signature :: string
  startLine :: int
  endLine :: int
  depth :: int
  docFirstLine :: "string option"

text \<open>
  Modelled from the spec: a DeclarationParser adapter (section 4.2). The adapters are not
  among the source files. An adapter reads the text left to right; from its state and the
  next character it either goes on, with the declarations it has just completed, or
  recognises malformed syntax (a diagnostic note), or breaks with an unexpected internal
  fault.
\<close>

datatype 'st step = Next 'st "Declaration list" | Malformed string | Fault string

record 'st adapter =
  init :: 'st
  scan :: "'st \<Rightarrow> char \<Rightarrow> 'st step"

text \<open>
  Modelled from the spec: \<^verbatim>\<open>parseDeclarations\<close> (section 4.2 and the second design note).
  The result carries the best-effort declaration list and an optional diagnostic note;
  \<open>Inl\<close> is the unexpected internal fault of section 7.
\<close>

fun scan_from ::
  "('st \<Rightarrow> char \<Rightarrow> 'st step) \<Rightarrow> 'st \<Rightarrow> Declaration list \<Rightarrow> string
    \<Rightarrow> string + (Declaration list \<times> string option)" where
  "scan_from sc s found [] = Inr (found, None)"
| "scan_from sc s found (c # cs) =
     (case sc s c of
        Next s' ds \<Rightarrow> scan_from sc s' (found @ ds) cs
      | Malformed note \<Rightarrow> Inr (found, Some note)
      | Fault msg \<Rightarrow> Inl msg)"

definition parseDeclarations ::
  "'st adapter \<Rightarrow> string \<Rightarrow> string + (Declaration list \<times> string option)" where
  "parseDeclarations a text = scan_from (scan a) (init a) [] text"

text \<open>The dictionary of template variables that \<^verbatim>\<open>ContextGenerator.context\<close> builds.\<close>

record context_vars =
  ctx_project_name :: string
  ctx_folder_structure_diagram :: string
  ctx_files :: "file_entry list"
  ctx_highlights :: "OutlineRecord list"
  ctx_sample_requested_files :: "string list"
  ctx_prompt :: "string option"

text \<open>
  What the modules outside the source files do, as parameters: \<^verbatim>\<open>PathConverter\<close>,
  \<^verbatim>\<open>safe_read_file\<close> (the file system read, \<open>None\<close> when the file cannot be read),
  \<^verbatim>\<open>to_language\<close>, \<^verbatim>\<open>FileSelector.create(root, ignore).get_files()\<close>,
  \<^verbatim>\<open>get_annotated_fsd\<close>, \<^verbatim>\<open>Path.name\<close>, the Jinja rendering of a template, and the
  engine's adapters (by language tag) and formatter.
\<close>

record 'st externals =
  to_absolute :: "string \<Rightarrow> string list \<Rightarrow> string list"
  to_relative :: "string \<Rightarrow> string list \<Rightarrow> string list"
  safe_read_file :: "string \<Rightarrow> string option"
  to_language :: "string \<Rightarrow> string option"
  get_files :: "string \<Rightarrow> string list \<Rightarrow> string list"
  get_annotated_fsd :: "string \<Rightarrow> string list \<Rightarrow> string list \<Rightarrow> bool \<Rightarrow> string"
  path_name :: "string \<Rightarrow> string"
  adapter_of :: "string \<Rightarrow> 'st adapter"
  format :: "string \<Rightarrow> Declaration list \<Rightarrow> string"
  render_template :: "string \<Rightarrow> string \<Rightarrow> context_vars \<Rightarrow> string"

text \<open>
  Modelled from the spec: the per-file pass of the OutlineEngine (section 4.4), Resolve,
  Parse, Format, Emit. No tag: no record. An internal fault of the parser: a record with
  empty text. Otherwise the formatted declarations, partial when the source was malformed.
\<close>

definition run_one :: "'st externals \<Rightarrow> Source \<Rightarrow> OutlineRecord option" where
  "run_one X src =
     (case to_language X (source_path src) of
        None \<Rightarrow> None
      | Some tag \<Rightarrow>
          (case parseDeclarations (adapter_of X tag) (source_content src) of
             Inl fault \<Rightarrow> Some (OutlineRecord (source_path src) [])
           | Inr (ds, note) \<Rightarrow>
               Some (OutlineRecord (source_path src) (format X (source_path src) ds))))"

text \<open>
  Modelled from the spec: \<^verbatim>\<open>generate_outlines\<close>, the engine's \<^verbatim>\<open>run\<close> over a batch
  (section 4.4); the function is imported from \<^verbatim>\<open>llm_context.highlighter.outliner\<close>, which
  is not among the source files.
\<close>

definition generate_outlines :: "'st externals \<Rightarrow> Source list \<Rightarrow> OutlineRecord list" where
  "generate_outlines X source_set = List.map_filter (run_one X) source_set"

section \<open>context_generator.py\<close>

subsection \<open>random.sample\<close>

text \<open>
  \<^verbatim>\<open>random.sample(population, k)\<close> draws \<open>k\<close> positions of the population without
  replacement and raises ValueError when \<open>k\<close> exceeds its length. The generator's hidden
  state is an explicit argument: \<open>rng i\<close> is the raw value of the \<open>i\<close>-th draw, and
  the element drawn leaves the pool (\<open>without\<close>).
\<close>

definition without :: "nat \<Rightarrow> 'a list \<Rightarrow> 'a list" where
  "without j pool = take j pool @ drop (Suc j) pool"

fun draw :: "(nat \<Rightarrow> nat) \<Rightarrow> nat \<Rightarrow> 'a list \<Rightarrow> nat \<Rightarrow> 'a list" where
  "draw rng i pool 0 = []"
| "draw rng i [] (Suc k) = []"
| "draw rng i (p # ps) (Suc k) =
     (let pool = p # ps; j = rng i mod length pool
      in pool ! j # draw rng (Suc i) (without j pool) k)"

definition random_sample :: "(nat \<Rightarrow> nat) \<Rightarrow> 'a list \<Rightarrow> nat \<Rightarrow> error + 'a list" where
  "random_sample rng population k =
     (if k \<le> length population then Inr (draw rng 0 population k) else Inl ValueError)"

subsection \<open>ContextCollector\<close>

record ContextCollector =
  root_path :: string

definition sample_file_abs ::
  "'st externals \<Rightarrow> (nat \<Rightarrow> nat) \<Rightarrow> ContextCollector \<Rightarrow> string list \<Rightarrow> error + string list" where
  "sample_file_abs X rng self full_abs =
     (let all_abs = set (get_files X (root_path self) [''.git'']);
          incomplete_files = sorted_list_of_set (all_abs - set full_abs)
      in random_sample rng incomplete_files (min 2 (length incomplete_files)))"

definition files :: "'st externals \<Rightarrow> ContextCollector \<Rightarrow> string list \<Rightarrow> file_entry list" where
  "files X self rel_paths =
     (let abs_paths = to_absolute X (root_path self) rel_paths
      in List.map_filter
           (\<lambda>(rel_path, abs_path).
              case safe_read_file X abs_path of
                None \<Rightarrow> None
              | Some text \<Rightarrow> Some \<lparr>path = rel_path, content = text\<rparr>)
           (zip rel_paths abs_paths))"

text \<open>The local \<^verbatim>\<open>source_set\<close> of \<^verbatim>\<open>outlines\<close>: one source unit per file that could be read.\<close>

definition source_set :: "'st externals \<Rightarrow> ContextCollector \<Rightarrow> string list \<Rightarrow> Source list" where
  "source_set X self rel_paths =
     (let abs_paths = to_absolute X (root_path self) rel_paths
      in List.map_filter
           (\<lambda>(rel, abs_path).
              case safe_read_file X abs_path of
                None \<Rightarrow> None
              | Some text \<Rightarrow> Some (Source rel text))
           (zip rel_paths abs_paths))"

definition outlines :: "'st externals \<Rightarrow> ContextCollector \<Rightarrow> string list \<Rightarrow> OutlineRecord list" where
  "outlines X self rel_paths = generate_outlines X (source_set X self rel_paths)"

definition folder_structure_diagram ::
  "'st externals \<Rightarrow> ContextCollector \<Rightarrow> string list \<Rightarrow> string list \<Rightarrow> bool \<Rightarrow> string" where
  "folder_structure_diagram X self full_abs outline_abs no_media =
     get_annotated_fsd X (root_path self) full_abs outline_abs no_media"

subsection \<open>ContextGenerator\<close>

text \<open>
  \<^verbatim>\<open>ProjectLayout\<close>, \<^verbatim>\<open>ProjectConfig\<close>, its context descriptor and \<^verbatim>\<open>FileSelection\<close>
  are declared outside the source files; the records hold the attributes and methods the
  source files use.
\<close>

record ProjectLayout =
  project_config_path :: string
  config_path :: string
  state_path :: string
  state_store_path :: string
  templates_path :: string
  project_notes_path :: string
  user_notes_path :: string
  get_template_path :: "string \<Rightarrow> string"

record ContextDescriptor =
  no_media :: bool
  with_prompt :: bool
  get_prompt :: "ProjectLayout \<Rightarrow> string option"

record ProjectConfig =
  project_root_path :: string
  context_descriptor :: ContextDescriptor
  config_layout :: ProjectLayout
  templates :: "string \<Rightarrow> string option"

record FileSelection =
  full_files :: "string list"
  outline_files :: "string list"

record ContextGenerator =
  collector :: ContextCollector
  settings :: ProjectConfig
  project_root :: string
  converter :: string
  full_rel :: "string list"
  full_abs :: "string list"
  outline_rel :: "string list"
  outline_abs :: "string list"

text \<open>Python's truth value of an \<^verbatim>\<open>Optional[str]\<close>: \<^verbatim>\<open>None\<close> and the empty string are false.\<close>

definition truthy :: "string option \<Rightarrow> bool" where
  "truthy v = (case v of None \<Rightarrow> False | Some s \<Rightarrow> s \<noteq> [])"

definition ContextGenerator_create ::
  "'st externals \<Rightarrow> ProjectConfig \<Rightarrow> FileSelection \<Rightarrow> ContextGenerator" where
  "ContextGenerator_create X settings' file_selection =
     (let project_root' = project_root_path settings';
          collector' = \<lparr>root_path = project_root'\<rparr>;
          converter' = project_root';
          sel_files = file_selection;
          full_rel' = full_files sel_files;
          full_abs' = to_absolute X converter' full_rel';
          outline_rel' = filter (\<lambda>f. truthy (to_language X f)) (outline_files sel_files);
          outline_abs' = to_absolute X converter' outline_rel'
      in \<lparr>collector = collector', settings = settings', project_root = project_root',
          converter = converter', full_rel = full_rel', full_abs = full_abs',
          outline_rel = outline_rel', outline_abs = outline_abs'\<rparr>)"

text \<open>The local dictionary \<^verbatim>\<open>context\<close> of \<^verbatim>\<open>ContextGenerator.context\<close> (lines 107 to 122).\<close>

definition context_dict ::
  "'st externals \<Rightarrow> (nat \<Rightarrow> nat) \<Rightarrow> ContextGenerator \<Rightarrow> error + context_vars" where
  "context_dict X rng self =
     (let descriptor = context_descriptor (settings self);
          layout = config_layout (settings self)
      in case sample_file_abs X rng (collector self) (full_abs self) of
           Inl e \<Rightarrow> Inl e
         | Inr sample \<Rightarrow>
             Inr \<lparr>ctx_project_name = path_name X (project_root self),
                  ctx_folder_structure_diagram =
                    folder_structure_diagram X (collector self) (full_abs self)
                      (outline_abs self) (no_media descriptor),
                  ctx_files = files X (collector self) (full_rel self),
                  ctx_highlights = outlines X (collector self) (outline_rel self),
                  ctx_sample_requested_files = to_relative X (converter self) sample,
                  ctx_prompt =
                    (if with_prompt descriptor then get_prompt descriptor layout else None)\<rparr>)"

definition render ::
  "'st externals \<Rightarrow> ContextGenerator \<Rightarrow> string \<Rightarrow> context_vars \<Rightarrow> error + string" where
  "render X self template_id ctx =
     (case templates (settings self) template_id of
        None \<Rightarrow> Inl KeyError
      | Some template_name \<Rightarrow>
          Inr (render_template X (templates_path (config_layout (settings self)))
                 template_name ctx))"

definition ContextGenerator_context ::
  "'st externals \<Rightarrow> (nat \<Rightarrow> nat) \<Rightarrow> ContextGenerator \<Rightarrow> error + string" where
  "ContextGenerator_context X rng self =
     (case context_dict X rng self of
        Inl e \<Rightarrow> Inl e
      | Inr ctx \<Rightarrow> render X self ''context'' ctx)"

section \<open>cmd_pipeline.py\<close>

text \<open>
  What a command can raise, by the classes the handlers name: \<^verbatim>\<open>LLMContextError\<close> (with
  its \<^verbatim>\<open>message\<close> and its \<^verbatim>\<open>str\<close>), any other instance of \<^verbatim>\<open>Exception\<close> (with its
  \<^verbatim>\<open>str\<close>), and what derives from \<^verbatim>\<open>BaseException\<close> only (KeyboardInterrupt,
  SystemExit), which \<^verbatim>\<open>except Exception\<close> does not catch.
\<close>

datatype exn = LLMContextError string string | Exception string | BaseException string

fun str :: "exn \<Rightarrow> string" where
  "str (LLMContextError message s) = s"
| "str (Exception s) = s"
| "str (BaseException s) = s"

fun is_Exception :: "exn \<Rightarrow> bool" where
  "is_Exception (LLMContextError message s) = True"
| "is_Exception (Exception s) = True"
| "is_Exception (BaseException s) = False"

record 'env ExecutionResult =
  result_content :: "string option"
  result_env :: 'env

text \<open>
  \<^verbatim>\<open>ExecutionEnvironment\<close> is declared outside the source files. What the wrappers use of
  it is a parameter: \<^verbatim>\<open>ExecutionEnvironment.create(Path.cwd())\<close>, which returns an
  environment or raises; what \<^verbatim>\<open>ExecutionEnvironment.current()\<close> does when no environment
  is active, return one or raise; and the messages of an environment's runtime.
\<close>

record 'env environments =
  create_environment :: "exn + 'env"
  current_when_inactive :: "exn + 'env"
  messages :: "'env \<Rightarrow> string list"

text \<open>
  The state a command runs in: the active environment if there is one, the messages given
  to the logger's \<^verbatim>\<open>error\<close> (oldest first), the exceptions whose traceback
  \<^verbatim>\<open>traceback.print_exc()\<close> printed, and the lines printed. The logger and \<^verbatim>\<open>print\<close>
  are taken to return.
\<close>

record 'env world =
  active :: "'env option"
  logged_errors :: "string list"
  printed_tracebacks :: "exn list"
  printed :: "string list"

definition current :: "'env environments \<Rightarrow> 'env world \<Rightarrow> exn + 'env" where
  "current V w = (case active w of Some env \<Rightarrow> Inr env | None \<Rightarrow> current_when_inactive V)"

text \<open>A callable applied to its arguments: it raises or returns, and changes the state.\<close>

type_synonym ('env, 'a) command = "'env world \<Rightarrow> (exn + 'a) \<times> 'env world"

text \<open>
  \<^verbatim>\<open>with env.activate(): return func(*args, env=env, **kwargs)\<close>: the environment is the
  active one inside the block, and the one that was active before is restored when the
  block is left, by a return or by an exception.
\<close>

definition with_env ::
  "'env environments \<Rightarrow> ('env \<Rightarrow> ('env, 'env ExecutionResult) command)
    \<Rightarrow> ('env, 'env ExecutionResult) command" where
  "with_env V func w =
     (case create_environment V of
        Inl e \<Rightarrow> (Inl e, w)
      | Inr env \<Rightarrow>
          (case func env (w\<lparr>active := Some env\<rparr>) of
             (r, w') \<Rightarrow> (r, w'\<lparr>active := active w\<rparr>)))"

text \<open>
  An exception raised inside an \<^verbatim>\<open>except\<close> clause leaves the \<^verbatim>\<open>try\<close> statement: it is not
  handled by a later clause of the same statement.
\<close>

definition with_logging ::
  "'env environments \<Rightarrow> ('env, 'env ExecutionResult) command
    \<Rightarrow> ('env, 'env ExecutionResult) command" where
  "with_logging V func w =
     (case func w of
        (Inr result, w') \<Rightarrow> (Inr result, w')
      | (Inl e, w') \<Rightarrow>
          if is_Exception e then
            (case current V w' of
               Inl raised \<Rightarrow> (Inl raised, w')
             | Inr env \<Rightarrow>
                 (Inr \<lparr>result_content = None, result_env = env\<rparr>,
                  w'\<lparr>logged_errors := logged_errors w' @ [''Error: '' @ str e]\<rparr>))
          else (Inl e, w'))"

definition with_print ::
  "'env environments \<Rightarrow> ('env, 'env ExecutionResult) command
    \<Rightarrow> ('env, 'env ExecutionResult) command" where
  "with_print V func w =
     (case func w of
        (Inr result, w') \<Rightarrow>
          (Inr result, w'\<lparr>printed := printed w' @ messages V (result_env result)\<rparr>)
      | (Inl e, w') \<Rightarrow> (Inl e, w'))"

definition with_error ::
  "'env environments \<Rightarrow> ('env, 'env ExecutionResult) command \<Rightarrow> ('env, unit) command" where
  "with_error V func w =
     (case func w of
        (Inr result, w') \<Rightarrow> (Inr (), w')
      | (Inl e, w') \<Rightarrow>
          (case e of
             LLMContextError message s \<Rightarrow>
               (case current V w' of
                  Inl raised \<Rightarrow> (Inl raised, w')
                | Inr env \<Rightarrow>
                    (Inr (), w'\<lparr>logged_errors := logged_errors w' @ [''Error: '' @ message]\<rparr>))
           | Exception s \<Rightarrow>
               (case current V w' of
                  Inl raised \<Rightarrow> (Inl raised, w')
                | Inr env \<Rightarrow>
                    (Inr (),
                     w'\<lparr>logged_errors :=
                           logged_errors w' @ [''An unexpected error occurred: '' @ str e],
                         printed_tracebacks := printed_tracebacks w' @ [e]\<rparr>))
           | BaseException s \<Rightarrow> (Inl e, w')))"

definition create_command ::
  "'env environments \<Rightarrow> ('env \<Rightarrow> ('env, 'env ExecutionResult) command) \<Rightarrow> ('env, unit) command" where
  "create_command V func = with_error V (with_print V (with_logging V (with_env V func)))"

section \<open>project_setup.py\<close>

text \<open>
  A TOML document as the dictionaries of the source build it. The file system is a map
  from the path of a file to its text; directories are not modelled, so the \<^verbatim>\<open>mkdir\<close>
  calls have no counterpart and a write never fails for a missing directory.
\<close>

datatype toml = TStr string | TBool bool | TDict "(string \<times> toml) list"

type_synonym fs = "string \<Rightarrow> string option"

definition PROJECT_INFO :: string where
  "PROJECT_INFO =
     ''This project uses llm-context. For more information, visit: '' @
     ''https://github.com/cyberchitta/llm-context.py or '' @
     ''https://pypi.org/project/llm-context/''"

record Config =
  config_templates :: "(string \<times> string) list"
  config_profiles :: "(string \<times> toml) list"
  config_info :: string

text \<open>
  What \<^verbatim>\<open>project_setup.py\<close> imports: \<^verbatim>\<open>Toml\<close> (the writer and the parser of a document),
  the package resources \<^verbatim>\<open>lc_resources\<close> (\<open>None\<close> where \<^verbatim>\<open>resources.read_text\<close> raises),
  \<^verbatim>\<open>Profile.create_code().to_dict()\<close> and \<^verbatim>\<open>ToolConstants.create_new().to_dict()\<close>.
\<close>

record setup_externals =
  toml_dumps :: "toml \<Rightarrow> string"
  toml_loads :: "string \<Rightarrow> toml option"
  resource_text :: "string \<Rightarrow> string option"
  profile_code :: toml
  new_constants :: toml

definition Config_create_default :: "setup_externals \<Rightarrow> Config" where
  "Config_create_default E =
     \<lparr>config_templates =
        [(''context'', ''lc-context.j2''),
         (''context-mcp'', ''lc-context-mcp.j2''),
         (''files'', ''lc-files.j2''),
         (''highlights'', ''lc-highlights.j2'')],
      config_profiles =
        [(''code'', profile_code E),
         (''code-prompt'',
          TDict [(''base'', TStr ''code''),
                 (''templates'', TDict [(''prompt'', TStr ''lc-prompt.md'')])])],
      config_info = PROJECT_INFO\<rparr>"

definition Config_to_dict :: "Config \<Rightarrow> toml" where
  "Config_to_dict c =
     TDict [(''__info__'', TStr (config_info c)),
            (''templates'', TDict (map (\<lambda>(k, v). (k, TStr v)) (config_templates c))),
            (''profiles'', TDict (config_profiles c))]"

record ToolConstants =
  needs_update :: bool

record ProjectSetup =
  project_layout :: ProjectLayout
  constants :: ToolConstants

text \<open>
  A method of \<^verbatim>\<open>ProjectSetup\<close> changes the file system and returns or raises; the file
  system is kept in both cases, since what was written before an exception stays written.
\<close>

datatype outcome = Done fs | Raised error fs

fun final_fs :: "outcome \<Rightarrow> fs" where
  "final_fs (Done s) = s"
| "final_fs (Raised e s) = s"

fun and_then :: "outcome \<Rightarrow> (fs \<Rightarrow> outcome) \<Rightarrow> outcome" where
  "and_then (Done s) f = f s"
| "and_then (Raised e s) f = Raised e s"

definition Toml_save :: "setup_externals \<Rightarrow> string \<Rightarrow> toml \<Rightarrow> fs \<Rightarrow> outcome" where
  "Toml_save E p data s = Done (s(p \<mapsto> toml_dumps E data))"

definition Toml_load :: "setup_externals \<Rightarrow> string \<Rightarrow> fs \<Rightarrow> error + toml" where
  "Toml_load E p s =
     (case s p of
        None \<Rightarrow> Inl FileNotFoundError
      | Some text \<Rightarrow> (case toml_loads E text of None \<Rightarrow> Inl ValueError | Some d \<Rightarrow> Inr d))"

definition write_text :: "string \<Rightarrow> string \<Rightarrow> fs \<Rightarrow> outcome" where
  "write_text p text s = Done (s(p \<mapsto> text))"

definition copy_template :: "setup_externals \<Rightarrow> string \<Rightarrow> string \<Rightarrow> fs \<Rightarrow> outcome" where
  "copy_template E template_name dest_path s =
     (case resource_text E template_name of
        None \<Rightarrow> Raised FileNotFoundError s
      | Some template_content \<Rightarrow> write_text dest_path template_content s)"

definition create_config_file :: "setup_externals \<Rightarrow> ProjectSetup \<Rightarrow> fs \<Rightarrow> outcome" where
  "create_config_file E self s =
     Toml_save E (config_path (project_layout self)) (Config_to_dict (Config_create_default E)) s"

definition create_or_update_config_file :: "setup_externals \<Rightarrow> ProjectSetup \<Rightarrow> fs \<Rightarrow> outcome" where
  "create_or_update_config_file E self s =
     (if s (config_path (project_layout self)) = None \<or> needs_update (constants self)
      then create_config_file E self s else Done s)"

definition create_curr_ctx_file :: "setup_externals \<Rightarrow> ProjectSetup \<Rightarrow> fs \<Rightarrow> outcome" where
  "create_curr_ctx_file E self s =
     (if s (state_store_path (project_layout self)) = None
      then Toml_save E (state_store_path (project_layout self))
             (TDict [(''selections'', TDict [])]) s
      else Done s)"

text \<open>
  The loop of \<^verbatim>\<open>_update_templates_if_needed\<close> over \<^verbatim>\<open>config["templates"].items()\<close>: a
  value that is not a string raises where the loop reaches it.
\<close>

fun copy_templates :: "setup_externals \<Rightarrow> ProjectSetup \<Rightarrow> (string \<times> toml) list \<Rightarrow> fs \<Rightarrow> outcome" where
  "copy_templates E self [] s = Done s"
| "copy_templates E self ((k, TStr template_name) # items) s =
     and_then
       (copy_template E template_name (get_template_path (project_layout self) template_name) s)
       (copy_templates E self items)"
| "copy_templates E self ((k, v) # items) s = Raised TypeError s"

definition update_templates_if_needed :: "setup_externals \<Rightarrow> ProjectSetup \<Rightarrow> fs \<Rightarrow> outcome" where
  "update_templates_if_needed E self s =
     (if needs_update (constants self) then
        (case Toml_load E (config_path (project_layout self)) s of
           Inl e \<Rightarrow> Raised e s
         | Inr (TDict config) \<Rightarrow>
             (case map_of config ''templates'' of
                None \<Rightarrow> Raised KeyError s
              | Some (TDict items) \<Rightarrow> copy_templates E self items s
              | Some v \<Rightarrow> Raised TypeError s)
         | Inr v \<Rightarrow> Raised TypeError s)
      else Done s)"

definition create_state_file :: "setup_externals \<Rightarrow> ProjectSetup \<Rightarrow> fs \<Rightarrow> outcome" where
  "create_state_file E self s = Toml_save E (state_path (project_layout self)) (new_constants E) s"

definition project_notes_text :: string where
  "project_notes_text =
     ''## Project Notes'' @ [CHR 0x0A, CHR 0x0A] @
     ''Add project-specific notes, documentation and guidelines here.'' @ [CHR 0x0A] @
     ''This file is stored in the project repository.'' @ [CHR 0x0A]"

definition user_notes_text :: string where
  "user_notes_text =
     ''## User Notes'' @ [CHR 0x0A, CHR 0x0A] @
     ''Add any personal notes or reminders about this or other projects here.'' @ [CHR 0x0A] @
     ''This file is private and stored in your user config directory.'' @ [CHR 0x0A]"

definition create_project_notes_file :: "ProjectSetup \<Rightarrow> fs \<Rightarrow> outcome" where
  "create_project_notes_file self s =
     (let notes_path = project_notes_path (project_layout self)
      in if s notes_path = None then write_text notes_path project_notes_text s else Done s)"

definition create_user_notes_file :: "ProjectSetup \<Rightarrow> fs \<Rightarrow> outcome" where
  "create_user_notes_file self s =
     (let notes_path = user_notes_path (project_layout self)
      in if s notes_path = None then write_text notes_path user_notes_text s else Done s)"

text \<open>\<^verbatim>\<open>project_config_path / "lc-prompt.md"\<close>: pathlib's join with a relative name.\<close>

definition path_join :: "string \<Rightarrow> string \<Rightarrow> string" where
  "path_join dir file_name = dir @ ''/'' @ file_name"

definition initialize :: "setup_externals \<Rightarrow> ProjectSetup \<Rightarrow> fs \<Rightarrow> outcome" where
  "initialize E self s =
     and_then (and_then (and_then (and_then (and_then (and_then
       (create_or_update_config_file E self s)
       (create_curr_ctx_file E self))
       (update_templates_if_needed E self))
       (create_state_file E self))
       (copy_template E ''lc-prompt.md''
          (path_join (project_config_path (project_layout self)) ''lc-prompt.md'')))
       (create_project_notes_file self))
       (create_user_notes_file self)"

fun is_Done :: "outcome \<Rightarrow> bool" where
  "is_Done (Done s) = True"
| "is_Done (Raised e s) = False"

text \<open>
  The text a kept file is created with, by the order in which \<^verbatim>\<open>initialize\<close> creates
  them: the selections store, the project notes, the user notes.
\<close>

definition default_text :: "setup_externals \<Rightarrow> ProjectLayout \<Rightarrow> string \<Rightarrow> string" where
  "default_text E L p =
     (if p = state_store_path L then toml_dumps E (TDict [(''selections'', TDict [])])
      else if p = project_notes_path L then project_notes_text
      else user_notes_text)"

text \<open>
  The files that \<^verbatim>\<open>initialize\<close> creates only when they are absent, and the layouts in
  which no other step of \<^verbatim>\<open>initialize\<close> writes to one of them: the configuration file,
  the state file, the copied prompt and the templates are other files.
\<close>

definition kept_paths :: "ProjectLayout \<Rightarrow> string set" where
  "kept_paths L = {state_store_path L, project_notes_path L, user_notes_path L}"

definition separate_files :: "ProjectLayout \<Rightarrow> bool" where
  "separate_files L =
     (config_path L \<notin> kept_paths L \<and> state_path L \<notin> kept_paths L \<and>
      path_join (project_config_path L) ''lc-prompt.md'' \<notin> kept_paths L \<and>
      (\<forall>n. get_template_path L n \<notin> kept_paths L))"

section \<open>Concrete inputs\<close>

text \<open>
  A small project used to run the definitions: Python files and files of unsupported
  languages under \<^verbatim>\<open>/p\<close>; \<^verbatim>\<open>gone.py\<close> is selected but cannot be read. The
  example adapter counts the letter \<^verbatim>\<open>d\<close> as a declaration, takes \<^verbatim>\<open>!\<close> for malformed
  syntax and breaks on \<^verbatim>\<open>#\<close>.
\<close>

definition example_declaration :: "nat \<Rightarrow> Declaration" where
  "example_declaration n =
     \<lparr>decl_kind = Function, name = ''d'', signature = ''def d()'', startLine = int n,
      endLine = int n, depth = 0, docFirstLine = None\<rparr>"

definition example_adapter :: "nat adapter" where
  "example_adapter =
     \<lparr>init = 0,
      scan = (\<lambda>n c. if c = CHR ''d'' then Next (Suc n) [example_declaration n]
                     else if c = CHR ''!'' then Malformed ''unexpected !''
                     else if c = CHR ''#'' then Fault ''internal''
                     else Next n [])\<rparr>"

definition example_externals :: "nat externals" where
  "example_externals =
     \<lparr>to_absolute = (\<lambda>root ps. map (\<lambda>p. root @ ''/'' @ p) ps),
      to_relative = (\<lambda>root ps. map (drop (Suc (length root))) ps),
      safe_read_file =
        map_of [(''/p/a.py'', ''dd''), (''/p/b.xyz'', ''whatever''), (''/p/c.py'', ''d!d''),
                (''/p/e.py'', ''d#d'')],
      to_language = (\<lambda>p. if drop (length p - 3) p = ''.py'' then Some ''python'' else None),
      get_files = (\<lambda>root ignore. [''/p/c.py'', ''/p/a.py'', ''/p/d.md'', ''/p/b.xyz'']),
      get_annotated_fsd = (\<lambda>root full outlined media. root),
      path_name = drop 1,
      adapter_of = (\<lambda>tag. example_adapter),
      format = (\<lambda>p ds. p @ concat (map (\<lambda>d. ''; '' @ signature d) ds)),
      render_template = (\<lambda>dir template ctx. concat (ctx_sample_requested_files ctx))\<rparr>"

definition example_collector :: ContextCollector where
  "example_collector = \<lparr>root_path = ''/p''\<rparr>"

text \<open>Two states of the random generator: every draw is 0, every draw is 1.\<close>

definition rng_zeros :: "nat \<Rightarrow> nat" where
  "rng_zeros i = 0"

definition rng_ones :: "nat \<Rightarrow> nat" where
  "rng_ones i = 1"

definition example_layout :: ProjectLayout where
  "example_layout =
     \<lparr>project_config_path = ''/p/.lc'',
      config_path = ''/p/.lc/config.toml'',
      state_path = ''/p/.lc/state.toml'',
      state_store_path = ''/p/.lc/curr_ctx.toml'',
      templates_path = ''/p/.lc/t'',
      project_notes_path = ''/p/.lc/notes.md'',
      user_notes_path = ''/u/notes.md'',
      get_template_path = (\<lambda>n. ''/p/.lc/t/'' @ n)\<rparr>"

definition example_settings :: ProjectConfig where
  "example_settings =
     \<lparr>project_root_path = ''/p'',
      context_descriptor = \<lparr>no_media = False, with_prompt = False, get_prompt = (\<lambda>L. None)\<rparr>,
      config_layout = example_layout,
      templates = map_of [(''context'', ''lc-context.j2'')]\<rparr>"

definition example_selection :: FileSelection where
  "example_selection =
     \<lparr>full_files = [''a.py''], outline_files = [''c.py'', ''b.xyz'', ''gone.py'', ''e.py'']\<rparr>"

definition example_generator :: ContextGenerator where
  "example_generator =
     ContextGenerator_create example_externals example_settings example_selection"

text \<open>
  A command that raises an ordinary exception, run from a state where no environment is
  active, with a \<^verbatim>\<open>current()\<close> that raises when none is.
\<close>

definition example_environments :: "unit environments" where
  "example_environments =
     \<lparr>create_environment = Inr (),
      current_when_inactive = Inl (Exception ''No active execution environment''),
      messages = (\<lambda>env. [])\<rparr>"

definition example_world :: "unit world" where
  "example_world =
     \<lparr>active = None, logged_errors = [], printed_tracebacks = [], printed = []\<rparr>"

definition failing_command :: "unit \<Rightarrow> (unit, unit ExecutionResult) command" where
  "failing_command env w = (Inl (Exception ''no such file''), w)"

text \<open>
  A project whose notes and selections exist already, set up again after an update of the
  tool: the writer of TOML is a stub, the parser returns the default configuration.
\<close>

definition example_setup_externals :: setup_externals where
  "example_setup_externals =
     \<lparr>toml_dumps = (\<lambda>d. ''toml''),
      toml_loads =
        (\<lambda>text. Some (TDict [(''templates'', TDict [(''context'', TStr ''lc-context.j2'')])])),
      resource_text = map_of [(''lc-context.j2'', ''template''), (''lc-prompt.md'', ''prompt'')],
      profile_code = TDict [],
      new_constants = TDict []\<rparr>"

definition example_setup :: ProjectSetup where
  "example_setup = \<lparr>project_layout = example_layout, constants = \<lparr>needs_update = True\<rparr>\<rparr>"

definition example_fs :: fs where
  "example_fs =
     map_of [(''/p/.lc/notes.md'', ''my notes''), (''/p/.lc/curr_ctx.toml'', ''my selections'')]"

section \<open>ContextCollector.files\<close>

lemma zip_as_indices:
  "length ys = length xs \<Longrightarrow> zip xs ys = map (\<lambda>i. (xs ! i, ys ! i)) [0..<length xs]"
  by (rule nth_equalityI) simp_all

text \<open>
  Claim C8. Where \<^verbatim>\<open>to_absolute\<close> gives one absolute path per relative path,
  \<^verbatim>\<open>ContextCollector.files\<close> returns one record for each position of the input list whose
  file could be read, in the order of the input list; the record holds the relative path
  at that position and the text read from that position's absolute path. A position
  whose file cannot be read gives no record, and nothing is raised.
\<close>

theorem files_one_record_per_readable_path:
  assumes "length (to_absolute X (root_path self) rel_paths) = length rel_paths"
  shows "files X self rel_paths =
     map (\<lambda>i. \<lparr>path = rel_paths ! i,
               content = the (safe_read_file X (to_absolute X (root_path self) rel_paths ! i))\<rparr>)
       (filter (\<lambda>i. safe_read_file X (to_absolute X (root_path self) rel_paths ! i) \<noteq> None)
          [0..<length rel_paths])"
proof -
  let ?abs = "to_absolute X (root_path self) rel_paths"
  let ?f = "\<lambda>(rel_path, abs_path).
              case safe_read_file X abs_path of
                None \<Rightarrow> None
              | Some text \<Rightarrow> Some \<lparr>path = rel_path, content = text\<rparr>"
  let ?ok = "\<lambda>i. safe_read_file X (?abs ! i) \<noteq> None"
  have ok: "(\<lambda>i. ?f (rel_paths ! i, ?abs ! i) \<noteq> None) = ?ok"
    by (auto split: option.splits)
  have "files X self rel_paths =
          map (the \<circ> ?f) (filter (\<lambda>x. ?f x \<noteq> None) (zip rel_paths ?abs))"
    by (simp add: files_def List.map_filter_def)
  also have "\<dots> = map (the \<circ> ?f)
          (map (\<lambda>i. (rel_paths ! i, ?abs ! i))
             (filter (\<lambda>i. ?f (rel_paths ! i, ?abs ! i) \<noteq> None) [0..<length rel_paths]))"
    by (subst zip_as_indices[OF assms]) (simp add: filter_map comp_def)
  also have "\<dots> = map (\<lambda>i. (the \<circ> ?f) (rel_paths ! i, ?abs ! i))
          (filter ?ok [0..<length rel_paths])"
    by (simp only: ok map_map comp_def)
  also have "\<dots> = map (\<lambda>i. \<lparr>path = rel_paths ! i, content = the (safe_read_file X (?abs ! i))\<rparr>)
          (filter ?ok [0..<length rel_paths])"
    by (rule map_cong[OF refl]) (auto split: option.splits)
  finally show ?thesis .
qed

theorem files_one_record_per_readable_path_witness:
  "length (to_absolute example_externals (root_path example_collector)
             [''a.py'', ''gone.py'', ''b.xyz'']) = length [''a.py'', ''gone.py'', ''b.xyz''] \<and>
   files example_externals example_collector [''a.py'', ''gone.py'', ''b.xyz''] =
     [\<lparr>path = ''a.py'', content = ''dd''\<rparr>, \<lparr>path = ''b.xyz'', content = ''whatever''\<rparr>]"
  using files_one_record_per_readable_path
    [where X = example_externals and self = example_collector
       and rel_paths = "[''a.py'', ''gone.py'', ''b.xyz'']"]
  by (simp add: files_def example_externals_def example_collector_def List.map_filter_def)

section \<open>ContextCollector.sample_file_abs\<close>

lemma draw_Suc:
  "pool \<noteq> [] \<Longrightarrow>
   draw rng i pool (Suc k) =
     pool ! (rng i mod length pool) # draw rng (Suc i) (without (rng i mod length pool) pool) k"
  by (cases pool) (simp_all add: Let_def)

lemma draw_Nil: "draw rng i [] k = []"
  by (cases k) simp_all

lemma set_without: "set (without j pool) \<subseteq> set pool"
  unfolding without_def using set_take_subset[of j pool] set_drop_subset[of "Suc j" pool] by auto

lemma length_without: "j < length pool \<Longrightarrow> length (without j pool) = length pool - 1"
  unfolding without_def by auto

lemma distinct_without:
  assumes "distinct pool" "j < length pool"
  shows "distinct (without j pool) \<and> pool ! j \<notin> set (without j pool)"
proof -
  have "pool = take j pool @ pool ! j # drop (Suc j) pool"
    using assms(2) by (rule id_take_nth_drop)
  then have "distinct (take j pool @ pool ! j # drop (Suc j) pool)"
    using assms(1) by simp
  then show ?thesis unfolding without_def by auto
qed

lemma length_draw: "length (draw rng i pool k) = min k (length pool)"
proof (induction k arbitrary: i pool)
  case 0
  show ?case by simp
next
  case (Suc k)
  show ?case
  proof (cases "pool = []")
    case True
    then show ?thesis by (simp add: draw_Nil)
  next
    case False
    then have j: "rng i mod length pool < length pool" by simp
    have pos: "0 < length pool" using False by simp
    have "length (draw rng i pool (Suc k)) =
            Suc (min k (length (without (rng i mod length pool) pool)))"
      using False Suc[of "Suc i" "without (rng i mod length pool) pool"]
      by (simp add: draw_Suc)
    also have "\<dots> = Suc (min k (length pool - 1))"
      using length_without[OF j] by simp
    also have "\<dots> = min (Suc k) (length pool)"
      using pos by arith
    finally show ?thesis .
  qed
qed

lemma set_draw: "set (draw rng i pool k) \<subseteq> set pool"
proof (induction k arbitrary: i pool)
  case 0
  show ?case by simp
next
  case (Suc k)
  show ?case
  proof (cases "pool = []")
    case True
    then show ?thesis by (simp add: draw_Nil)
  next
    case False
    then have j: "rng i mod length pool < length pool" by simp
    have "pool ! (rng i mod length pool) \<in> set pool" using j by (rule nth_mem)
    moreover have "set (draw rng (Suc i) (without (rng i mod length pool) pool) k) \<subseteq> set pool"
      using Suc[of "Suc i" "without (rng i mod length pool) pool"]
        set_without[of "rng i mod length pool" pool] by blast
    ultimately show ?thesis using False by (simp add: draw_Suc)
  qed
qed

lemma distinct_draw: "distinct pool \<Longrightarrow> distinct (draw rng i pool k)"
proof (induction k arbitrary: i pool)
  case 0
  show ?case by simp
next
  case (Suc k)
  show ?case
  proof (cases "pool = []")
    case True
    then show ?thesis by (simp add: draw_Nil)
  next
    case False
    let ?j = "rng i mod length pool"
    have j: "?j < length pool" using False by simp
    note d = distinct_without[OF Suc.prems j]
    have "distinct (draw rng (Suc i) (without ?j pool) k)"
      using Suc.IH d by blast
    moreover have "pool ! ?j \<notin> set (draw rng (Suc i) (without ?j pool) k)"
      using d set_draw[of rng "Suc i" "without ?j pool" k] by blast
    ultimately show ?thesis using False by (simp add: draw_Suc)
  qed
qed

lemma min_two_zero: "(min 2 (n::nat) = 0) = (n = 0)"
  by auto

text \<open>
  Claim C10. \<^verbatim>\<open>sample_file_abs\<close> raises nothing and returns \<open>min 2 n\<close> paths, where \<open>n\<close>
  is the number of project files that are not fully included: so at most two, and none
  exactly when there is no such file. The paths returned are distinct project files, and
  none of them is fully included. This holds for every state of the random generator.
\<close>

theorem sample_file_abs_at_most_two_incomplete_files:
  "case sample_file_abs X rng self full of
     Inl e \<Rightarrow> False
   | Inr sample \<Rightarrow>
       length sample = min 2 (card (set (get_files X (root_path self) [''.git'']) - set full)) \<and>
       set sample \<subseteq> set (get_files X (root_path self) [''.git'']) - set full \<and>
       distinct sample \<and>
       (sample = []) = (set (get_files X (root_path self) [''.git'']) - set full = {})"
proof -
  let ?D = "set (get_files X (root_path self) [''.git'']) - set full"
  let ?inc = "sorted_list_of_set ?D"
  have fin: "finite ?D" by simp
  have len: "length ?inc = card ?D" by simp
  have st: "set ?inc = ?D" using fin by simp
  have di: "distinct ?inc" by simp
  let ?s = "draw rng 0 ?inc (min 2 (length ?inc))"
  have eq: "sample_file_abs X rng self full = Inr ?s"
    by (simp add: sample_file_abs_def random_sample_def Let_def)
  have l: "length ?s = min 2 (card ?D)" using len by (simp add: length_draw)
  have s: "set ?s \<subseteq> ?D" using set_draw[of rng 0 ?inc "min 2 (length ?inc)"] st by simp
  have d: "distinct ?s" using di by (rule distinct_draw)
  have e: "(?s = []) = (?D = {})"
  proof -
    have "(?s = []) = (length ?s = 0)" by simp
    also have "\<dots> = (min 2 (card ?D) = 0)" by (simp only: l)
    also have "\<dots> = (card ?D = 0)" by (rule min_two_zero)
    also have "\<dots> = (?D = {})" using fin by simp
    finally show ?thesis .
  qed
  show ?thesis unfolding eq using l s d e by simp
qed

theorem sample_file_abs_at_most_two_incomplete_files_witness:
  "sample_file_abs example_externals rng_zeros example_collector [''/p/a.py''] =
     Inr [''/p/b.xyz'', ''/p/c.py''] \<and>
   length [''/p/b.xyz'', ''/p/c.py''] =
     min 2 (card (set (get_files example_externals (root_path example_collector) [''.git''])
                  - set [''/p/a.py'']))"
proof -
  have run: "sample_file_abs example_externals rng_zeros example_collector [''/p/a.py''] =
      Inr [''/p/b.xyz'', ''/p/c.py'']"
    by (simp add: sample_file_abs_def example_externals_def example_collector_def
        random_sample_def rng_zeros_def without_def Let_def numeral_2_eq_2 insert_Diff_if)
  show ?thesis
    using sample_file_abs_at_most_two_incomplete_files
      [where X = example_externals and rng = rng_zeros and self = example_collector
         and full = "[''/p/a.py'']"]
    unfolding run by simp
qed

section \<open>The outline batch: language filter, collection, engine\<close>

lemma map_filter_append:
  "List.map_filter f (xs @ ys) = List.map_filter f xs @ List.map_filter f ys"
  by (simp add: List.map_filter_def)

lemma run_one_path: "run_one X src = Some r \<Longrightarrow> record_path r = source_path src"
  by (auto simp: run_one_def split: option.splits sum.splits)

lemma run_one_defined: "(run_one X src \<noteq> None) = (to_language X (source_path src) \<noteq> None)"
  by (auto simp: run_one_def split: option.splits sum.splits)

lemma generate_outlines_paths:
  "map record_path (generate_outlines X srcs) =
     filter (\<lambda>p. to_language X p \<noteq> None) (map source_path srcs)"
proof (induction srcs)
  case Nil
  show ?case by (simp add: generate_outlines_def List.map_filter_def)
next
  case (Cons src srcs)
  show ?case
  proof (cases "run_one X src")
    case None
    with run_one_defined[of X src] have "to_language X (source_path src) = None" by simp
    with None Cons show ?thesis by (simp add: generate_outlines_def)
  next
    case (Some r)
    with run_one_defined[of X src] have "to_language X (source_path src) \<noteq> None" by simp
    with Some Cons run_one_path[OF Some] show ?thesis
      by (simp add: generate_outlines_def)
  qed
qed

lemma source_set_paths:
  "map source_path (source_set X self rel_paths) =
     map fst (filter (\<lambda>(rel, abs_path). safe_read_file X abs_path \<noteq> None)
                (zip rel_paths (to_absolute X (root_path self) rel_paths)))"
proof -
  have "map source_path (List.map_filter
           (\<lambda>(rel, abs_path). case safe_read_file X abs_path of
                None \<Rightarrow> None | Some text \<Rightarrow> Some (Source rel text)) zs) =
        map fst (filter (\<lambda>(rel, abs_path). safe_read_file X abs_path \<noteq> None) zs)" for zs
    by (induction zs) (auto simp: List.map_filter_def split: option.splits)
  then show ?thesis by (simp add: source_set_def)
qed

lemma subseq_zip_fst: "subseq (map fst (filter P (zip xs ys))) xs"
proof -
  have "subseq (map fst (filter P (zip xs ys))) (map fst (zip xs ys))"
    by (simp add: subseq_map)
  moreover have "subseq (map fst (zip xs ys)) xs"
    unfolding map_fst_zip_take by (rule prefix_imp_subseq[OF take_is_prefix])
  ultimately show ?thesis by (rule subseq_order.trans)
qed

lemma source_set_subseq: "subseq (map source_path (source_set X self rel_paths)) rel_paths"
  unfolding source_set_paths by (rule subseq_zip_fst)

lemma outlines_subseq: "subseq (map record_path (outlines X self rel_paths)) rel_paths"
proof -
  have "subseq (map record_path (outlines X self rel_paths))
          (map source_path (source_set X self rel_paths))"
    unfolding outlines_def generate_outlines_paths by simp
  then show ?thesis using source_set_subseq subseq_order.trans by blast
qed

lemma outline_rel_create:
  "outline_rel (ContextGenerator_create X cfg sel) =
     filter (\<lambda>f. truthy (to_language X f)) (outline_files sel)"
  by (simp add: ContextGenerator_create_def Let_def)

lemmas example_defs = example_generator_def example_externals_def example_settings_def
  example_selection_def example_adapter_def example_declaration_def example_collector_def
  example_layout_def

lemma example_outline_rel: "outline_rel example_generator = [''c.py'', ''gone.py'', ''e.py'']"
  by (simp add: example_defs ContextGenerator_create_def Let_def truthy_def)

lemma example_outlines:
  "outlines example_externals (collector example_generator) (outline_rel example_generator) =
     [OutlineRecord ''c.py'' ''c.py; def d()'', OutlineRecord ''e.py'' []]"
  unfolding example_outline_rel
  by (simp add: example_defs ContextGenerator_create_def Let_def outlines_def source_set_def
      generate_outlines_def run_one_def parseDeclarations_def List.map_filter_def)

text \<open>
  Claim C1. A file of the selection whose path resolves to no language tag is not in the
  outline file list that \<^verbatim>\<open>ContextGenerator.create\<close> builds, no source unit is made for
  it and no outline record carries its path. \<^verbatim>\<open>create\<close> and \<^verbatim>\<open>outlines\<close> return
  values, not errors: the exclusion raises nothing.
\<close>

theorem unsupported_language_file_excluded:
  assumes "to_language X f = None"
  shows "f \<notin> set (outline_rel (ContextGenerator_create X cfg sel)) \<and>
     f \<notin> set (map source_path
             (source_set X (collector (ContextGenerator_create X cfg sel))
                (outline_rel (ContextGenerator_create X cfg sel)))) \<and>
     f \<notin> set (map record_path
             (outlines X (collector (ContextGenerator_create X cfg sel))
                (outline_rel (ContextGenerator_create X cfg sel))))"
proof -
  let ?G = "ContextGenerator_create X cfg sel"
  have a: "f \<notin> set (outline_rel ?G)"
    using assms by (simp add: outline_rel_create truthy_def)
  have b: "f \<notin> set (map source_path (source_set X (collector ?G) (outline_rel ?G)))"
    using a list_emb_set[OF source_set_subseq[of X "collector ?G" "outline_rel ?G"], of f]
    by blast
  have c: "f \<notin> set (map record_path (outlines X (collector ?G) (outline_rel ?G)))"
    using a list_emb_set[OF outlines_subseq[of X "collector ?G" "outline_rel ?G"], of f]
    by blast
  from a b c show ?thesis by simp
qed

theorem unsupported_language_file_excluded_witness:
  "to_language example_externals ''b.xyz'' = None \<and>
   ''b.xyz'' \<in> set (outline_files example_selection) \<and>
   ''b.xyz'' \<notin> set (outline_rel example_generator) \<and>
   ''b.xyz'' \<notin> set (map record_path
       (outlines example_externals (collector example_generator) (outline_rel example_generator)))"
proof -
  have h: "to_language example_externals ''b.xyz'' = None"
    by (simp add: example_externals_def)
  show ?thesis
    using h unsupported_language_file_excluded
      [OF h, of example_settings example_selection, folded example_generator_def]
    by (simp add: example_selection_def)
qed

text \<open>
  Claim C2. The language filter of \<^verbatim>\<open>ContextGenerator.create\<close> keeps the selected outline
  files in their order; \<^verbatim>\<open>ContextCollector.outlines\<close> builds its source units in the order
  of the paths it is given and returns its records in that order: the paths of the records
  are a subsequence of the input list, for each step and for the steps together.
\<close>

theorem outline_records_keep_input_order:
  "subseq (outline_rel (ContextGenerator_create X cfg sel)) (outline_files sel) \<and>
   subseq (map source_path (source_set X self rel_paths)) rel_paths \<and>
   subseq (map record_path (outlines X self rel_paths)) rel_paths \<and>
   subseq (map record_path
             (outlines X (collector (ContextGenerator_create X cfg sel))
                (outline_rel (ContextGenerator_create X cfg sel))))
     (outline_files sel)"
proof -
  have a: "subseq (outline_rel (ContextGenerator_create X cfg sel)) (outline_files sel)"
    unfolding outline_rel_create by simp
  have b: "subseq (map record_path (outlines X self rel_paths)) rel_paths"
    by (rule outlines_subseq)
  have c: "subseq (map record_path
             (outlines X (collector (ContextGenerator_create X cfg sel))
                (outline_rel (ContextGenerator_create X cfg sel))))
     (outline_files sel)"
    using outlines_subseq a subseq_order.trans by blast
  have d: "subseq (map source_path (source_set X self rel_paths)) rel_paths"
    by (rule source_set_subseq)
  from a b c d show ?thesis by simp
qed

theorem outline_records_keep_input_order_witness:
  "outline_files example_selection = [''c.py'', ''b.xyz'', ''gone.py'', ''e.py''] \<and>
   outline_rel example_generator = [''c.py'', ''gone.py'', ''e.py''] \<and>
   map record_path
     (outlines example_externals (collector example_generator) (outline_rel example_generator)) =
     [''c.py'', ''e.py''] \<and>
   subseq [''c.py'', ''e.py''] [''c.py'', ''b.xyz'', ''gone.py'', ''e.py'']"
proof -
  have files: "outline_files example_selection = [''c.py'', ''b.xyz'', ''gone.py'', ''e.py'']"
    by (simp add: example_selection_def)
  have paths: "map record_path
      (outlines example_externals (collector example_generator) (outline_rel example_generator)) =
      [''c.py'', ''e.py'']"
    by (simp add: example_outlines)
  have "subseq [''c.py'', ''e.py''] [''c.py'', ''b.xyz'', ''gone.py'', ''e.py'']"
    using outline_records_keep_input_order
      [of example_externals example_settings example_selection example_collector "[]",
       folded example_generator_def]
    unfolding paths files by blast
  with files paths example_outline_rel show ?thesis by blast
qed

text \<open>
  Claim C4, as the code has it. Where \<^verbatim>\<open>to_absolute\<close> gives one absolute path per
  relative path, \<^verbatim>\<open>ContextCollector.outlines\<close> returns one record for each position of the
  input list whose file could be read and whose path has a language tag, in the order of
  the input list and with the path at that position. A position whose file cannot be
  read, or whose path has no tag, gives no record.
\<close>

theorem one_outline_record_per_readable_supported_path:
  assumes "length (to_absolute X (root_path self) rel_paths) = length rel_paths"
  shows "map record_path (outlines X self rel_paths) =
     map (\<lambda>i. rel_paths ! i)
       (filter (\<lambda>i. safe_read_file X (to_absolute X (root_path self) rel_paths ! i) \<noteq> None \<and>
                     to_language X (rel_paths ! i) \<noteq> None)
          [0..<length rel_paths])"
proof -
  let ?abs = "to_absolute X (root_path self) rel_paths"
  let ?read = "\<lambda>i. safe_read_file X (?abs ! i) \<noteq> None"
  let ?lang = "\<lambda>p. to_language X p \<noteq> None"
  have units: "map source_path (source_set X self rel_paths) =
      map (\<lambda>i. rel_paths ! i) (filter ?read [0..<length rel_paths])"
    unfolding source_set_paths
    by (subst zip_as_indices[OF assms]) (simp add: filter_map comp_def)
  have "map record_path (outlines X self rel_paths) =
      filter ?lang (map source_path (source_set X self rel_paths))"
    by (simp add: outlines_def generate_outlines_paths)
  also have "\<dots> = map (\<lambda>i. rel_paths ! i)
      (filter (\<lambda>i. ?lang (rel_paths ! i)) (filter ?read [0..<length rel_paths]))"
    unfolding units by (simp add: filter_map comp_def)
  also have "\<dots> = map (\<lambda>i. rel_paths ! i)
      (filter (\<lambda>i. ?read i \<and> ?lang (rel_paths ! i)) [0..<length rel_paths])"
    by simp
  finally show ?thesis .
qed

theorem one_outline_record_per_readable_supported_path_witness:
  "length (to_absolute example_externals (root_path example_collector)
             [''c.py'', ''b.xyz'', ''gone.py'', ''e.py'']) =
     length [''c.py'', ''b.xyz'', ''gone.py'', ''e.py''] \<and>
   outlines example_externals example_collector [''c.py'', ''b.xyz'', ''gone.py'', ''e.py''] =
     [OutlineRecord ''c.py'' ''c.py; def d()'', OutlineRecord ''e.py'' []] \<and>
   map record_path
     (outlines example_externals example_collector [''c.py'', ''b.xyz'', ''gone.py'', ''e.py'']) =
     [''c.py'', ''e.py'']"
proof -
  have len: "length (to_absolute example_externals (root_path example_collector)
             [''c.py'', ''b.xyz'', ''gone.py'', ''e.py'']) =
     length [''c.py'', ''b.xyz'', ''gone.py'', ''e.py'']"
    by (simp add: example_externals_def)
  have run: "outlines example_externals example_collector
      [''c.py'', ''b.xyz'', ''gone.py'', ''e.py''] =
      [OutlineRecord ''c.py'' ''c.py; def d()'', OutlineRecord ''e.py'' []]"
    by (simp add: example_defs outlines_def source_set_def generate_outlines_def run_one_def
        parseDeclarations_def List.map_filter_def)
  show ?thesis
    using len one_outline_record_per_readable_supported_path[OF len]
    unfolding run by simp
qed

text \<open>
  Claim C4, as it is stated, fails: \<^verbatim>\<open>gone.py\<close> has a supported language and is in the
  batch, its file cannot be read, and the output holds no record for it.
\<close>

theorem supported_unreadable_path_has_no_record:
  "to_language example_externals ''gone.py'' = Some ''python'' \<and>
   safe_read_file example_externals ''/p/gone.py'' = None \<and>
   outlines example_externals example_collector [''gone.py''] = []"
  by (simp add: example_defs outlines_def source_set_def generate_outlines_def
      List.map_filter_def)

lemma scan_from_malformed:
  assumes "scan_from sc s found pre = Inr (ds, None)"
    and "scan_from sc s found (pre @ [c]) = Inr (ds', Some note)"
  shows "ds' = ds \<and> scan_from sc s found (pre @ c # rest) = Inr (ds, Some note)"
  using assms
proof (induction pre arbitrary: s found)
  case Nil
  then show ?case by (auto split: step.splits)
next
  case (Cons x pre)
  then show ?case by (cases "sc s x") auto
qed

text \<open>
  Claim C6. Let the text of a file with a supported language parse cleanly up to a point,
  with the declarations \<open>ds\<close>, and let the next character be recognised as malformed.
  Then the parse of the whole file returns \<open>ds\<close> with the diagnostic note, whatever
  follows; the record of the file is the outline of \<open>ds\<close>; and the records of the files
  before and after it in the batch are the ones these files give without it.
\<close>

theorem malformed_source_keeps_earlier_declarations:
  assumes "to_language X p = Some tag"
    and "parseDeclarations (adapter_of X tag) pre = Inr (ds, None)"
    and "parseDeclarations (adapter_of X tag) (pre @ [c]) = Inr (ds', Some note)"
  shows "parseDeclarations (adapter_of X tag) (pre @ c # rest) = Inr (ds, Some note) \<and>
     generate_outlines X (before @ Source p (pre @ c # rest) # after) =
       generate_outlines X before @ [OutlineRecord p (format X p ds)] @ generate_outlines X after"
proof -
  have parse: "parseDeclarations (adapter_of X tag) (pre @ c # rest) = Inr (ds, Some note)"
    using scan_from_malformed[of "scan (adapter_of X tag)" "init (adapter_of X tag)" "[]" pre ds c ds' "note" rest]
      assms(2,3) by (simp add: parseDeclarations_def)
  have one: "run_one X (Source p (pre @ c # rest)) = Some (OutlineRecord p (format X p ds))"
    using assms(1) parse by (simp add: run_one_def)
  have batch: "generate_outlines X (before @ Source p (pre @ c # rest) # after) =
      generate_outlines X before @ [OutlineRecord p (format X p ds)] @ generate_outlines X after"
    by (simp add: generate_outlines_def map_filter_append one)
  from parse batch show ?thesis by simp
qed

theorem malformed_source_keeps_earlier_declarations_witness:
  "to_language example_externals ''c.py'' = Some ''python'' \<and>
   parseDeclarations (adapter_of example_externals ''python'') ''d'' =
     Inr ([example_declaration 0], None) \<and>
   parseDeclarations (adapter_of example_externals ''python'') (''d'' @ ''!'') =
     Inr ([example_declaration 0], Some ''unexpected !'') \<and>
   parseDeclarations (adapter_of example_externals ''python'') (''d'' @ CHR ''!'' # ''d'') =
     Inr ([example_declaration 0], Some ''unexpected !'') \<and>
   generate_outlines example_externals
     ([Source ''a.py'' ''dd''] @ Source ''c.py'' (''d'' @ CHR ''!'' # ''d'') # [Source ''e.py'' ''d#d'']) =
     generate_outlines example_externals [Source ''a.py'' ''dd''] @
     [OutlineRecord ''c.py''
        (format example_externals ''c.py'' [example_declaration 0])] @
     generate_outlines example_externals [Source ''e.py'' ''d#d'']"
proof -
  have h1: "to_language example_externals ''c.py'' = Some ''python''"
    by (simp add: example_externals_def)
  have h2: "parseDeclarations (adapter_of example_externals ''python'') ''d'' =
      Inr ([example_declaration 0], None)"
    by (simp add: example_externals_def example_adapter_def parseDeclarations_def)
  have h3: "parseDeclarations (adapter_of example_externals ''python'') (''d'' @ ''!'') =
      Inr ([example_declaration 0], Some ''unexpected !'')"
    by (simp add: example_externals_def example_adapter_def parseDeclarations_def)
  show ?thesis
    using h1 h2 h3 malformed_source_keeps_earlier_declarations
      [OF h1 h2 h3, of "''d''" "[Source ''a.py'' ''dd'']" "[Source ''e.py'' ''d#d'']"]
    by simp
qed

section \<open>ContextGenerator.context and the random sample\<close>

text \<open>
  Claim C3, as the code has it. Two generations of the context from the same generator
  raise nothing and agree on every template variable but
  \<^verbatim>\<open>sample_requested_files\<close>, whatever the states of the random generator; the outline
  records among them are those of \<^verbatim>\<open>ContextCollector.outlines\<close>, which takes no random
  state.
\<close>

theorem context_deterministic_except_sample:
  "case (context_dict X rng self, context_dict X rng' self) of
     (Inr c, Inr c') \<Rightarrow>
        c\<lparr>ctx_sample_requested_files := ctx_sample_requested_files c'\<rparr> = c' \<and>
        ctx_highlights c = outlines X (collector self) (outline_rel self)
   | _ \<Rightarrow> False"
  by (simp add: context_dict_def sample_file_abs_def random_sample_def Let_def)

theorem context_deterministic_except_sample_witness:
  "map_sum id ctx_highlights (context_dict example_externals rng_zeros example_generator) =
     Inr [OutlineRecord ''c.py'' ''c.py; def d()'', OutlineRecord ''e.py'' []] \<and>
   map_sum id ctx_highlights (context_dict example_externals rng_ones example_generator) =
     Inr [OutlineRecord ''c.py'' ''c.py; def d()'', OutlineRecord ''e.py'' []]"
proof -
  note both = context_deterministic_except_sample
    [where X = example_externals and rng = rng_zeros and self = example_generator
       and rng' = rng_ones]
  show ?thesis
  proof (cases "context_dict example_externals rng_zeros example_generator")
    case (Inl e)
    with both show ?thesis by simp
  next
    case zeros: (Inr c)
    show ?thesis
    proof (cases "context_dict example_externals rng_ones example_generator")
      case (Inl e)
      with both zeros show ?thesis by simp
    next
      case ones: (Inr c')
      from both zeros ones
      have eq: "c\<lparr>ctx_sample_requested_files := ctx_sample_requested_files c'\<rparr> = c'"
        and recs: "ctx_highlights c =
          outlines example_externals (collector example_generator) (outline_rel example_generator)"
        by simp_all
      have "ctx_highlights c' = ctx_highlights c"
        by (subst eq[symmetric]) simp
      with zeros ones recs show ?thesis by (simp add: example_outlines)
    qed
  qed
qed

text \<open>
  Claim C3, as it is stated, fails: on the same project, selection and files, the sample
  of requested files differs with the state of the random generator, and the template
  variables with it.
\<close>

theorem context_differs_with_random_state:
  "sample_file_abs example_externals rng_zeros example_collector [''/p/a.py''] =
     Inr [''/p/b.xyz'', ''/p/c.py''] \<and>
   sample_file_abs example_externals rng_ones example_collector [''/p/a.py''] =
     Inr [''/p/c.py'', ''/p/d.md''] \<and>
   context_dict example_externals rng_zeros example_generator \<noteq>
     context_dict example_externals rng_ones example_generator"
  by (simp add: sample_file_abs_def example_defs context_dict_def ContextGenerator_create_def
        random_sample_def rng_zeros_def rng_ones_def without_def Let_def numeral_2_eq_2
        insert_Diff_if)

section \<open>The command wrappers\<close>

text \<open>
  The path the handlers are written for: while an environment is active, or where
  \<^verbatim>\<open>current()\<close> returns one anyway, \<^verbatim>\<open>with_logging\<close> turns an instance of \<^verbatim>\<open>Exception\<close>
  into a logged diagnostic and a result whose content is \<^verbatim>\<open>None\<close>.
\<close>

lemma with_logging_catches_where_current_returns:
  assumes "func w = (Inl e, w')" and "is_Exception e" and "current V w' = Inr env"
  shows "with_logging V func w =
     (Inr \<lparr>result_content = None, result_env = env\<rparr>,
      w'\<lparr>logged_errors := logged_errors w' @ [''Error: '' @ str e]\<rparr>)"
  using assms by (simp add: with_logging_def)

text \<open>
  Claim C5, at the input where the code misses it. A command built by \<^verbatim>\<open>create_command\<close>
  is called while no environment is active, and \<^verbatim>\<open>current()\<close> raises when none is. The
  callable raises an instance of \<^verbatim>\<open>Exception\<close>. The block of \<^verbatim>\<open>with_env\<close> has been left
  when the handler of \<^verbatim>\<open>with_logging\<close> asks for the current environment, so the handler
  raises before it logs; the handler of \<^verbatim>\<open>with_error\<close> does the same. The exception of
  \<^verbatim>\<open>current()\<close> reaches the caller, and the log is as the callable left it.
\<close>

theorem create_command_handlers_fail_outside_activation:
  assumes "active w = None"
    and "create_environment V = Inr env"
    and "current_when_inactive V = Inl raised"
    and "func env (w\<lparr>active := Some env\<rparr>) = (Inl e, w')"
    and "is_Exception e"
  shows "create_command V func w = (Inl raised, w'\<lparr>active := None\<rparr>)"
proof -
  let ?w = "w'\<lparr>active := None\<rparr>"
  have none: "current V ?w = Inl raised"
    using assms(3) by (simp add: current_def)
  have inner: "with_env V func w = (Inl e, ?w)"
    using assms(1,2,4) by (simp add: with_env_def)
  have logging: "with_logging V (with_env V func) w = (Inl raised, ?w)"
    using inner assms(5) none by (simp add: with_logging_def)
  have print: "with_print V (with_logging V (with_env V func)) w = (Inl raised, ?w)"
    using logging by (simp add: with_print_def)
  have "with_error V (with_print V (with_logging V (with_env V func))) w = (Inl raised, ?w)"
    using print none by (cases raised) (simp_all add: with_error_def)
  then show ?thesis by (simp add: create_command_def)
qed

theorem create_command_handlers_fail_outside_activation_witness:
  "active example_world = None \<and>
   create_environment example_environments = Inr () \<and>
   current_when_inactive example_environments =
     Inl (Exception ''No active execution environment'') \<and>
   failing_command () (example_world\<lparr>active := Some ()\<rparr>) =
     (Inl (Exception ''no such file''), example_world\<lparr>active := Some ()\<rparr>) \<and>
   is_Exception (Exception ''no such file'') \<and>
   create_command example_environments failing_command example_world =
     (Inl (Exception ''No active execution environment''), example_world) \<and>
   logged_errors example_world = []"
proof -
  have h1: "active example_world = None"
    by (simp add: example_world_def)
  have h2: "create_environment example_environments = Inr ()"
    and h3: "current_when_inactive example_environments =
      Inl (Exception ''No active execution environment'')"
    by (simp_all add: example_environments_def)
  have h4: "failing_command () (example_world\<lparr>active := Some ()\<rparr>) =
      (Inl (Exception ''no such file''), example_world\<lparr>active := Some ()\<rparr>)"
    by (simp add: failing_command_def)
  have h5: "is_Exception (Exception ''no such file'')"
    by simp
  show ?thesis
    using h1 h2 h3 h4 h5
      create_command_handlers_fail_outside_activation
        [where V = example_environments and w = example_world and env = "()"
           and func = failing_command and e = "Exception ''no such file''"
           and w' = "example_world\<lparr>active := Some ()\<rparr>"
           and raised = "Exception ''No active execution environment''"]
    by (simp add: example_world_def)
qed

section \<open>ProjectSetup.initialize\<close>

lemma config_step:
  "\<exists>s1. create_or_update_config_file E self s = Done s1 \<and>
        (\<forall>p. p \<noteq> config_path (project_layout self) \<longrightarrow> s1 p = s p)"
  by (simp add: create_or_update_config_file_def create_config_file_def Toml_save_def)

lemma copy_template_frame:
  "p \<noteq> dest \<Longrightarrow> final_fs (copy_template E n dest s) p = s p"
  by (simp add: copy_template_def write_text_def split: option.splits)

lemma copy_templates_frame:
  "\<forall>n. get_template_path (project_layout self) n \<noteq> p \<Longrightarrow>
   final_fs (copy_templates E self items s) p = s p"
proof (induction E self items s rule: copy_templates.induct)
  case (2 E self k template_name items s)
  let ?o = "copy_template E template_name (get_template_path (project_layout self) template_name) s"
  have first: "final_fs ?o p = s p"
    by (rule copy_template_frame) (use 2(2) in auto)
  show ?case
  proof (cases ?o)
    case (Done s')
    with first 2 show ?thesis by simp
  next
    case (Raised e s')
    with first show ?thesis by simp
  qed
qed simp_all

lemma update_templates_frame:
  "\<forall>n. get_template_path (project_layout self) n \<noteq> p \<Longrightarrow>
   final_fs (update_templates_if_needed E self s) p = s p"
  by (auto simp: update_templates_if_needed_def copy_templates_frame
      split: sum.splits toml.splits option.splits)

text \<open>
  Claim C9. In a layout where the other files that \<^verbatim>\<open>initialize\<close> writes are not the
  project notes, the user notes or the selections store, each of these three files
  keeps its text when it exists. When it is absent it is created with its default text:
  the selections store always, the notes when \<^verbatim>\<open>initialize\<close> returns; after an exception
  in an earlier step the notes are still absent.
\<close>

theorem initialize_keeps_existing_notes_and_selections:
  assumes sep: "separate_files (project_layout self)"
    and kept: "p \<in> kept_paths (project_layout self)"
  shows "final_fs (initialize E self s) p =
     (case s p of
        Some text \<Rightarrow> Some text
      | None \<Rightarrow>
          if is_Done (initialize E self s) \<or> p = state_store_path (project_layout self)
          then Some (default_text E (project_layout self) p) else None)"
proof -
  let ?L = "project_layout self"
  have ne_config: "p \<noteq> config_path ?L" and ne_state: "p \<noteq> state_path ?L"
    and ne_prompt: "p \<noteq> path_join (project_config_path ?L) ''lc-prompt.md''"
    and ne_tmpl: "\<forall>n. get_template_path ?L n \<noteq> p"
    using sep kept unfolding separate_files_def by auto
  obtain s1 where o1: "create_or_update_config_file E self s = Done s1" and s1: "s1 p = s p"
    using config_step[of E self s] ne_config by blast
  define s2 where "s2 = (if s1 (state_store_path ?L) = None
      then s1(state_store_path ?L \<mapsto> toml_dumps E (TDict [(''selections'', TDict [])])) else s1)"
  have o2: "create_curr_ctx_file E self s1 = Done s2"
    by (simp add: create_curr_ctx_file_def Toml_save_def s2_def)
  have s2: "s2 p = (case s p of Some text \<Rightarrow> Some text
      | None \<Rightarrow> if p = state_store_path ?L then Some (default_text E ?L p) else None)"
    using s1 by (auto simp: s2_def default_text_def split: option.splits)
  let ?o3 = "update_templates_if_needed E self s2"
  have f3: "final_fs ?o3 p = s2 p" using ne_tmpl by (rule update_templates_frame)
  show ?thesis
  proof (cases ?o3)
    case (Raised e s3)
    then have "initialize E self s = Raised e s3"
      by (simp add: initialize_def o1 o2)
    with f3 Raised s2 show ?thesis by (simp split: option.splits)
  next
    case (Done s3)
    with f3 have s3: "s3 p = s2 p" by simp
    define s4 where "s4 = s3(state_path ?L \<mapsto> toml_dumps E (new_constants E))"
    have o4: "create_state_file E self s3 = Done s4"
      by (simp add: create_state_file_def Toml_save_def s4_def)
    have s4: "s4 p = s2 p" using s3 ne_state by (simp add: s4_def)
    let ?o5 = "copy_template E ''lc-prompt.md''
        (path_join (project_config_path ?L) ''lc-prompt.md'') s4"
    have f5: "final_fs ?o5 p = s4 p" using ne_prompt by (rule copy_template_frame)
    show ?thesis
    proof (cases ?o5)
      case (Raised e s5)
      then have "initialize E self s = Raised e s5"
        by (simp add: initialize_def o1 o2 Done o4)
      with f5 Raised s4 s2 show ?thesis by (simp split: option.splits)
    next
      case d5: (Done s5)
      with f5 s4 have s5: "s5 p = s2 p" by simp
      define s6 where "s6 = (if s5 (project_notes_path ?L) = None
          then s5(project_notes_path ?L \<mapsto> project_notes_text) else s5)"
      have o6: "create_project_notes_file self s5 = Done s6"
        by (simp add: create_project_notes_file_def write_text_def s6_def Let_def)
      define s7 where "s7 = (if s6 (user_notes_path ?L) = None
          then s6(user_notes_path ?L \<mapsto> user_notes_text) else s6)"
      have o7: "create_user_notes_file self s6 = Done s7"
        by (simp add: create_user_notes_file_def write_text_def s7_def Let_def)
      have init: "initialize E self s = Done s7"
        by (simp add: initialize_def o1 o2 Done o4 d5 o6 o7)
      have "s7 p = (case s p of Some text \<Rightarrow> Some text
          | None \<Rightarrow> Some (default_text E ?L p))"
        using kept s5 s2
        by (auto simp: s7_def s6_def kept_paths_def default_text_def split: option.splits)
      with init show ?thesis by (simp split: option.splits)
    qed
  qed
qed

theorem initialize_keeps_existing_notes_and_selections_witness:
  "separate_files (project_layout example_setup) \<and>
   ''/p/.lc/notes.md'' \<in> kept_paths (project_layout example_setup) \<and>
   ''/u/notes.md'' \<in> kept_paths (project_layout example_setup) \<and>
   example_fs ''/p/.lc/notes.md'' = Some ''my notes'' \<and>
   example_fs ''/u/notes.md'' = None \<and>
   is_Done (initialize example_setup_externals example_setup example_fs) \<and>
   final_fs (initialize example_setup_externals example_setup example_fs) ''/p/.lc/notes.md'' =
     Some ''my notes'' \<and>
   final_fs (initialize example_setup_externals example_setup example_fs) ''/u/notes.md'' =
     Some user_notes_text"
proof -
  have sep: "separate_files (project_layout example_setup)"
    by (simp add: separate_files_def kept_paths_def example_setup_def example_layout_def
        path_join_def)
  have kept: "''/p/.lc/notes.md'' \<in> kept_paths (project_layout example_setup)"
    and kept': "''/u/notes.md'' \<in> kept_paths (project_layout example_setup)"
    by (simp_all add: kept_paths_def example_setup_def example_layout_def)
  have before: "example_fs ''/p/.lc/notes.md'' = Some ''my notes''"
    and before': "example_fs ''/u/notes.md'' = None"
    by (simp_all add: example_fs_def)
  have returns: "is_Done (initialize example_setup_externals example_setup example_fs)"
    by (simp add: initialize_def create_or_update_config_file_def create_config_file_def
        create_curr_ctx_file_def update_templates_if_needed_def create_state_file_def
        copy_template_def create_project_notes_file_def create_user_notes_file_def
        Toml_save_def Toml_load_def write_text_def path_join_def Let_def
        example_setup_def example_layout_def example_setup_externals_def example_fs_def)
  have default: "default_text example_setup_externals (project_layout example_setup)
      ''/u/notes.md'' = user_notes_text"
    by (simp add: default_text_def example_setup_def example_layout_def)
  show ?thesis
    using sep kept kept' before before' returns default
      initialize_keeps_existing_notes_and_selections
        [OF sep kept, of example_setup_externals example_fs]
      initialize_keeps_existing_notes_and_selections
        [OF sep kept', of example_setup_externals example_fs]
    by simp
qed

end
